theory Spec2Isabelle
  imports Complex_Main
begin

section \<open>The tracing package (pkg/tracing/tracing.go)\<close>

text \<open>
  The package is a thin layer over the zipkin-go library. Its own code is embedded
  function by function; the library it calls is a parameter (the record \<open>zipkingo\<close>),
  so that every theorem about the package holds for whatever the library does.

  Go values:
  \<^item> a pointer is a \<open>nat option\<close>: \<open>None\<close> is nil, \<open>Some p\<close> the address \<open>p\<close> of a
    struct on the heap of its type (a list, the address is the index);
  \<^item> an \<open>error\<close> is its message, a nil error is \<open>None\<close>;
  \<^item> a \<open>time.Time\<close> is the number of nanoseconds since the Unix epoch;
  \<^item> a \<open>float64\<close> sample rate is a real number (the package only hands it on);
  \<^item> a \<open>map[string]string\<close> is a partial function, the nil map the empty one;
  \<^item> a panic is the left summand of a result.
\<close>

type_synonym error = string
type_synonym time = int

datatype panic = NilPointerDereference

subsection \<open>Values of the zipkin-go library\<close>

text \<open>
  The library's objects are opaque to the package, which only stores them and passes
  them on. Each is modelled as a value that can carry what it was made from. A Reporter
  is an object with an identity: its first component tells it from every other Reporter,
  also from one of the same kind and URL.
\<close>

datatype endpoint = Endpoint string string

datatype sampler = BoundarySampler real int

datatype reporter = NoopReporter nat | HTTPReporter nat string

fun reporter_id :: "reporter \<Rightarrow> nat" where
  "reporter_id (NoopReporter i) = i"
| "reporter_id (HTTPReporter i url) = i"

datatype tracer_option =
    WithLocalEndpoint "endpoint option"
  | WithSharedSpans bool
  | WithTraceID128Bit bool
  | WithSampler sampler
  | WithTags "string \<rightharpoonup> string"

datatype engine = Engine "reporter option" "tracer_option list"

datatype span_option = StartTime time

record zspan =
  Name :: string
  Timestamp :: time

text \<open>
  The functions of zipkin-go the package calls. A Go result \<open>(v, err)\<close> is a sum:
  \<open>Inl err\<close> when \<open>err\<close> is not nil, \<open>Inr v\<close> otherwise. \<open>NewEndpoint\<close> may return a
  nil endpoint with a nil error, hence the option. \<open>Reporter_Close\<close> is the \<open>Close\<close>
  method of a reporter (its \<open>io.Closer\<close>).
\<close>

record zipkingo =
  NewEndpoint :: "string \<Rightarrow> string \<Rightarrow> error + endpoint option"
  NewBoundarySampler :: "real \<Rightarrow> int \<Rightarrow> error + sampler"
  NewTracer :: "reporter option \<Rightarrow> tracer_option list \<Rightarrow> error + engine"
  StartSpan :: "engine \<Rightarrow> string \<Rightarrow> span_option list \<Rightarrow> zspan"
  Reporter_Close :: "reporter \<Rightarrow> error option"

subsection \<open>The package's types\<close>

record ZipkinSpec =
  Hostport :: string
  ServerURL :: string
  DisableReport :: bool
  SampleRate :: real
  SameSpan :: bool
  ID128Bit :: bool

record Spec =
  ServiceName :: string
  Tags :: "string \<rightharpoonup> string"
  Zipkin :: "ZipkinSpec option"

record Tracer =
  tracer :: "engine option"
  tags :: "string \<rightharpoonup> string"
  closer :: "reporter option"

text \<open>
  The struct \<open>span\<close> is declared in another file of the package; its two fields are
  those of the composite literals \<open>&span{tracer: ..., Span: ...}\<close> of this file. Its
  field \<open>tracer\<close> is named \<open>span_tracer\<close> here, apart from the field of \<open>Tracer\<close>.
\<close>

record span =
  Span :: zspan
  span_tracer :: "nat option"

subsection \<open>The state of the process\<close>

text \<open>
  What a call can read or change: the heaps of \<open>Tracer\<close> and \<open>span\<close> structs, the two
  package variables \<open>NoopTracer\<close> and \<open>NoopSpan\<close>, the cached clock of
  \<open>fasttime\<close>, the number of Reporters made so far (the identity of the next one),
  and the log of the calls that reach outside the package (the newest first).
\<close>

datatype event =
    ClockRead
  | SpanStarted engine string "span_option list"
  | ReporterClosed reporter

record world =
  tracers :: "Tracer list"
  spans :: "span list"
  NoopTracer :: "nat option"
  NoopSpan :: "nat option"
  fasttime_now :: time
  reporters_made :: nat
  events :: "event list"

definition lookup :: "'a list \<Rightarrow> nat \<Rightarrow> 'a option" where
  "lookup xs p = (if p < length xs then Some (xs ! p) else None)"

definition alloc_Tracer :: "world \<Rightarrow> Tracer \<Rightarrow> nat \<times> world" where
  \<comment> \<open>\<open>&Tracer{...}\<close>: a new struct at a fresh address.\<close>
  "alloc_Tracer st T = (length (tracers st), st\<lparr>tracers := tracers st @ [T]\<rparr>)"

definition alloc_span :: "world \<Rightarrow> span \<Rightarrow> nat \<times> world" where
  \<comment> \<open>\<open>&span{...}\<close>: a new struct at a fresh address.\<close>
  "alloc_span st s = (length (spans st), st\<lparr>spans := spans st @ [s]\<rparr>)"

definition fasttime_Now :: "world \<Rightarrow> time \<times> world" where
  \<comment> \<open>Modelled from the spec: pkg/util/fasttime is not among the sources; time reads use
      a coarse, cached clock. The read is logged.\<close>
  "fasttime_Now st = (fasttime_now st, st\<lparr>events := ClockRead # events st\<rparr>)"

definition NewNoopReporter :: "world \<Rightarrow> reporter \<times> world" where
  \<comment> \<open>Modelled from the spec: zipkin-go's reporter.NewNoopReporter is not part of the
      sources; it yields a discarding Reporter, a new object.\<close>
  "NewNoopReporter st =
     (NoopReporter (reporters_made st), st\<lparr>reporters_made := Suc (reporters_made st)\<rparr>)"

definition NewReporter :: "world \<Rightarrow> string \<Rightarrow> reporter \<times> world" where
  \<comment> \<open>Modelled from the spec: zipkin-go's reporter/http.NewReporter is not part of the
      sources; it yields an HTTP-batch Reporter targeting the given URL, a new object.\<close>
  "NewReporter st url =
     (HTTPReporter (reporters_made st) url, st\<lparr>reporters_made := Suc (reporters_made st)\<rparr>)"

definition Unix :: "time \<Rightarrow> int" where
  \<comment> \<open>\<open>time.Time.Unix\<close>: the seconds since the epoch.\<close>
  "Unix t = t div 1000000000"

definition engine_StartSpan ::
  "zipkingo \<Rightarrow> world \<Rightarrow> engine \<Rightarrow> string \<Rightarrow> span_option list \<Rightarrow> zspan \<times> world" where
  \<comment> \<open>A call of the engine's \<open>StartSpan\<close>, logged.\<close>
  "engine_StartSpan lib st e name opts =
     (StartSpan lib e name opts, st\<lparr>events := SpanStarted e name opts # events st\<rparr>)"

subsection \<open>The package's functions\<close>

definition Validate :: "zipkingo \<Rightarrow> world \<Rightarrow> ZipkinSpec \<Rightarrow> error option \<times> world" where
  "Validate lib st spec =
     (if Hostport spec \<noteq> [] then
        (case NewEndpoint lib [] (Hostport spec) of
           Inl err \<Rightarrow> (Some err, st)
         | Inr _ \<Rightarrow> (None, st))
      else (None, st))"

definition init :: "zipkingo \<Rightarrow> world \<Rightarrow> panic + world" where
  \<comment> \<open>The error of \<open>NewTracer(nil)\<close> is dropped: on an error the engine is nil, and
      starting the span on it panics.\<close>
  "init lib st =
     (let tracer0 = (case NewTracer lib None [] of Inl _ \<Rightarrow> None | Inr t \<Rightarrow> Some t);
          (p, st1) = alloc_Tracer st \<lparr>tracer = tracer0, tags = Map.empty, closer = None\<rparr>;
          st2 = st1\<lparr>NoopTracer := Some p\<rparr>
      in case tracer0 of
           None \<Rightarrow> Inl NilPointerDereference
         | Some e \<Rightarrow>
             let (s, st3) = engine_StartSpan lib st2 e [] [];
                 (q, st4) = alloc_span st3 \<lparr>Span = s, span_tracer = NoopTracer st3\<rparr>
             in Inr (st4\<lparr>NoopSpan := Some q\<rparr>))"

definition New ::
  "zipkingo \<Rightarrow> world \<Rightarrow> Spec option \<Rightarrow> panic + ((nat option \<times> error option) \<times> world)" where
  "New lib st spec =
     (case spec of
        None \<Rightarrow> Inr ((NoopTracer st, None), st)
      | Some s \<Rightarrow>
         (case Zipkin s of
            None \<Rightarrow> Inl NilPointerDereference
          | Some z \<Rightarrow>
             (case NewEndpoint lib (ServiceName s) (Hostport z) of
                Inl err \<Rightarrow> Inr ((None, Some err), st)
              | Inr endpoint \<Rightarrow>
                 (let (now, st1) = fasttime_Now st in
                  case NewBoundarySampler lib (SampleRate z) (Unix now) of
                    Inl err \<Rightarrow> Inr ((None, Some err), st1)
                  | Inr sampler \<Rightarrow>
                     (let (reporter, st2) =
                            (if DisableReport z then NewNoopReporter st1
                             else NewReporter st1 (ServerURL z))
                      in case NewTracer lib (Some reporter)
                              [WithLocalEndpoint endpoint,
                               WithSharedSpans (SameSpan z),
                               WithTraceID128Bit (ID128Bit z),
                               WithSampler sampler,
                               WithTags (Tags s)] of
                           Inl err \<Rightarrow> Inr ((None, Some err), st2)
                         | Inr tracer1 \<Rightarrow>
                             (let (p, st3) =
                                    alloc_Tracer st2
                                      \<lparr>tracer = Some tracer1, tags = Map.empty,
                                       closer = Some reporter\<rparr>
                              in Inr ((Some p, None), st3)))))))"

definition IsNoopTracer :: "world \<Rightarrow> nat option \<Rightarrow> bool" where
  \<comment> \<open>A comparison of pointers; the receiver is not dereferenced.\<close>
  "IsNoopTracer st t = (t = NoopTracer st)"

definition Close :: "zipkingo \<Rightarrow> world \<Rightarrow> nat option \<Rightarrow> panic + (error option \<times> world)" where
  "Close lib st t =
     (case t of
        None \<Rightarrow> Inl NilPointerDereference
      | Some p \<Rightarrow>
         (case lookup (tracers st) p of
            None \<Rightarrow> Inl NilPointerDereference
          | Some T \<Rightarrow>
             (case closer T of
                Some c \<Rightarrow> Inr (Reporter_Close lib c, st\<lparr>events := ReporterClosed c # events st\<rparr>)
              | None \<Rightarrow> Inr (None, st))))"

definition newSpanWithStart ::
  "zipkingo \<Rightarrow> world \<Rightarrow> nat option \<Rightarrow> string \<Rightarrow> time \<Rightarrow> panic + (nat option \<times> world)" where
  "newSpanWithStart lib st t name startAt =
     (case t of
        None \<Rightarrow> Inl NilPointerDereference
      | Some p \<Rightarrow>
         (case lookup (tracers st) p of
            None \<Rightarrow> Inl NilPointerDereference
          | Some T \<Rightarrow>
             (case tracer T of
                None \<Rightarrow> Inl NilPointerDereference
              | Some e \<Rightarrow>
                 (let (s, st1) = engine_StartSpan lib st e name [StartTime startAt];
                      (q, st2) = alloc_span st1 \<lparr>Span = s, span_tracer = t\<rparr>
                  in Inr (Some q, st2)))))"

definition NewSpan ::
  "zipkingo \<Rightarrow> world \<Rightarrow> nat option \<Rightarrow> string \<Rightarrow> panic + (nat option \<times> world)" where
  "NewSpan lib st t name =
     (if IsNoopTracer st t then Inr (NoopSpan st, st)
      else (let (now, st1) = fasttime_Now st in newSpanWithStart lib st1 t name now))"

definition NewSpanWithStart ::
  "zipkingo \<Rightarrow> world \<Rightarrow> nat option \<Rightarrow> string \<Rightarrow> time \<Rightarrow> panic + (nat option \<times> world)" where
  "NewSpanWithStart lib st t name startAt =
     (if IsNoopTracer st t then Inr (NoopSpan st, st)
      else newSpanWithStart lib st t name startAt)"

subsection \<open>Well-formed states\<close>

text \<open>
  What \<open>init\<close> establishes and every function of the package keeps: the two package
  variables point to allocated structs, the Noop Tracer has no closer, and every
  \<open>Tracer\<close> on the heap has an engine.
\<close>

definition wf_world :: "world \<Rightarrow> bool" where
  "wf_world st =
     ((case NoopTracer st of
         None \<Rightarrow> False
       | Some n \<Rightarrow> (case lookup (tracers st) n of None \<Rightarrow> False | Some T \<Rightarrow> closer T = None))
      \<and> (case NoopSpan st of None \<Rightarrow> False | Some m \<Rightarrow> m < length (spans st))
      \<and> list_all (\<lambda>T. tracer T \<noteq> None) (tracers st))"

text \<open>
  Ownership of the Reporters: the closers of the \<open>Tracer\<close>s on the heap are Reporters
  already made, and no two \<open>Tracer\<close>s hold the same one.
\<close>

definition closers :: "world \<Rightarrow> reporter list" where
  "closers st = concat (map (\<lambda>T. case closer T of None \<Rightarrow> [] | Some r \<Rightarrow> [r]) (tracers st))"

definition sole_owners :: "world \<Rightarrow> bool" where
  "sole_owners st =
     (distinct (map reporter_id (closers st))
      \<and> list_all (\<lambda>r. reporter_id r < reporters_made st) (closers st))"

subsection \<open>A library for concrete runs\<close>

definition is_digit :: "char \<Rightarrow> bool" where
  "is_digit c = (c \<in> set ''0123456789'')"

definition port_value :: "string \<Rightarrow> nat" where
  "port_value ds = foldl (\<lambda>n c. 10 * n + (of_char c - 48)) 0 ds"

definition valid_hostport :: "string \<Rightarrow> bool" where
  \<comment> \<open>Modelled from the spec: zipkin-go's endpoint parser is not part of the sources; a
      valid "host:port" has a colon, and after its last colon a decimal port that fits 16
      bits.\<close>
  "valid_hostport hp =
     (let port = rev (takeWhile (\<lambda>c. c \<noteq> CHR '':'') (rev hp))
      in CHR '':'' \<in> set hp \<and> port \<noteq> [] \<and> list_all is_digit port \<and> port_value port < 65536)"

definition spec_NewEndpoint :: "string \<Rightarrow> string \<Rightarrow> error + endpoint option" where
  \<comment> \<open>Modelled from the spec: the Endpoint Resolver turns a service name and an optional
      host:port into a network identity, and fails when a non-empty host:port does not
      parse.\<close>
  "spec_NewEndpoint name hp =
     (if hp = [] \<or> valid_hostport hp then Inr (Some (Endpoint name hp))
      else Inl ''invalid hostport'')"

definition spec_NewBoundarySampler :: "real \<Rightarrow> int \<Rightarrow> error + sampler" where
  \<comment> \<open>Modelled from the spec: the Sampler is built from a rate and a seed, and building
      it fails when the rate is outside [0, 1].\<close>
  "spec_NewBoundarySampler rate salt =
     (if 0 \<le> rate \<and> rate \<le> 1 then Inr (BoundarySampler rate salt)
      else Inl ''invalid sample rate'')"

definition spec_StartSpan :: "engine \<Rightarrow> string \<Rightarrow> span_option list \<Rightarrow> zspan" where
  \<comment> \<open>Modelled from the spec: the engine starts a span with the given name, at the
      start time supplied (a span started with no start time takes the engine's own clock,
      which the package never sees; 0 stands for it).\<close>
  "spec_StartSpan e name opts =
     fold (\<lambda>opt s. case opt of StartTime t \<Rightarrow> s\<lparr>Timestamp := t\<rparr>) opts
       \<lparr>Name = name, Timestamp = 0\<rparr>"

definition spec_lib :: zipkingo where
  \<comment> \<open>Modelled from the spec: the consumed capabilities of its section 6, with an engine
      whose construction succeeds and a Reporter whose close reports no error.\<close>
  "spec_lib =
     \<lparr>NewEndpoint = spec_NewEndpoint,
      NewBoundarySampler = spec_NewBoundarySampler,
      NewTracer = (\<lambda>rep opts. Inr (Engine rep opts)),
      StartSpan = spec_StartSpan,
      Reporter_Close = (\<lambda>r. None)\<rparr>"

definition boot :: world where
  \<comment> \<open>The state before the package's \<open>init\<close> has run.\<close>
  "boot = \<lparr>tracers = [], spans = [], NoopTracer = None, NoopSpan = None,
           fasttime_now = 1700000000000000000, reporters_made = 0, events = []\<rparr>"

definition world0 :: world where
  \<comment> \<open>The state after \<open>init\<close>, with the library above.\<close>
  "world0 =
     \<lparr>tracers = [\<lparr>tracer = Some (Engine None []), tags = Map.empty, closer = None\<rparr>],
      spans = [\<lparr>Span = \<lparr>Name = [], Timestamp = 0\<rparr>, span_tracer = Some 0\<rparr>],
      NoopTracer = Some 0, NoopSpan = Some 0,
      fasttime_now = 1700000000000000000, reporters_made = 0,
      events = [SpanStarted (Engine None []) [] []]\<rparr>"

definition example_spec :: "string \<Rightarrow> real \<Rightarrow> bool \<Rightarrow> Spec" where
  \<comment> \<open>A Spec for service "svc" reporting to http://collector:9411, with the given
      hostport, sample rate and disableReport.\<close>
  "example_spec hp rate off =
     \<lparr>ServiceName = ''svc'', Tags = Map.empty,
      Zipkin = Some \<lparr>Hostport = hp, ServerURL = ''http://collector:9411'',
                     DisableReport = off, SampleRate = rate, SameSpan = False,
                     ID128Bit = False\<rparr>\<rparr>"

definition example_engine :: "bool \<Rightarrow> engine" where
  \<comment> \<open>The engine \<open>New\<close> builds in \<open>world0\<close> from \<open>example_spec [] 1 off\<close>.\<close>
  "example_engine off =
     Engine (Some (if off then NoopReporter 0 else HTTPReporter 0 ''http://collector:9411''))
       [WithLocalEndpoint (Some (Endpoint ''svc'' [])), WithSharedSpans False,
        WithTraceID128Bit False, WithSampler (BoundarySampler 1 1700000000),
        WithTags Map.empty]"

definition world1 :: "bool \<Rightarrow> world" where
  \<comment> \<open>The state after that call of \<open>New\<close>: a second \<open>Tracer\<close>, at address 1.\<close>
  "world1 off =
     world0\<lparr>tracers := tracers world0 @
               [\<lparr>tracer = Some (example_engine off), tags = Map.empty,
                 closer = Some (if off then NoopReporter 0
                                else HTTPReporter 0 ''http://collector:9411'')\<rparr>],
            reporters_made := 1,
            events := ClockRead # events world0\<rparr>"

definition failing_close_lib :: zipkingo where
  \<comment> \<open>The same library with a Reporter whose close reports an error.\<close>
  "failing_close_lib = spec_lib\<lparr>Reporter_Close := (\<lambda>r. Some ''flush failed'')\<rparr>"

section \<open>Properties\<close>

lemmas pkg_defs = New_def Validate_def Close_def NewSpan_def NewSpanWithStart_def
  newSpanWithStart_def IsNoopTracer_def alloc_Tracer_def alloc_span_def fasttime_Now_def
  engine_StartSpan_def NewNoopReporter_def NewReporter_def

subsection \<open>The heap\<close>

lemma lookup_append_old: "lookup xs p = Some y \<Longrightarrow> lookup (xs @ [x]) p = Some y"
  by (auto simp: lookup_def nth_append split: if_splits)

lemma lookup_Some_length: "lookup xs p = Some y \<Longrightarrow> p < length xs"
  by (simp add: lookup_def split: if_splits)

subsection \<open>Well-formedness is an invariant\<close>

lemma init_wf:
  assumes "list_all (\<lambda>T. tracer T \<noteq> None) (tracers st)" and "init lib st = Inr st'"
  shows "wf_world st'"
  using assms
  by (auto simp: init_def wf_world_def alloc_Tracer_def alloc_span_def engine_StartSpan_def
      lookup_def nth_append Let_def split: sum.splits option.splits)

lemma New_wf:
  assumes "wf_world st" and "New lib st spec = Inr (r, st')"
  shows "wf_world st'"
  using assms
  by (auto simp: pkg_defs wf_world_def Let_def lookup_append_old
      split: sum.splits option.splits if_splits dest: lookup_append_old)

lemma New_allocated:
  assumes "New lib st (Some s) = Inr ((Some p, e), st')"
  shows "p < length (tracers st')"
  using assms
  by (auto simp: pkg_defs Let_def split: sum.splits option.splits if_splits)

lemma newSpanWithStart_wf:
  assumes "wf_world st" and "newSpanWithStart lib st t name startAt = Inr (r, st')"
  shows "wf_world st'"
  using assms
  by (auto simp: pkg_defs wf_world_def Let_def split: sum.splits option.splits if_splits)

lemma NewSpanWithStart_wf:
  assumes "wf_world st" and "NewSpanWithStart lib st t name startAt = Inr (r, st')"
  shows "wf_world st'"
  using assms newSpanWithStart_wf [of st lib t name startAt r st']
  by (auto simp: NewSpanWithStart_def split: if_splits)

lemma fasttime_Now_wf: "wf_world st \<Longrightarrow> wf_world (snd (fasttime_Now st))"
  by (auto simp: fasttime_Now_def wf_world_def split: option.splits)

lemma NewSpan_wf:
  assumes "wf_world st" and "NewSpan lib st t name = Inr (r, st')"
  shows "wf_world st'"
proof (cases "IsNoopTracer st t")
  case True
  with assms show ?thesis by (simp add: NewSpan_def)
next
  case False
  with assms(2) have
    "newSpanWithStart lib (snd (fasttime_Now st)) t name (fst (fasttime_Now st)) = Inr (r, st')"
    by (simp add: NewSpan_def split_beta)
  with fasttime_Now_wf [OF assms(1)] show ?thesis
    by (rule newSpanWithStart_wf)
qed

lemma Close_wf:
  assumes "wf_world st" and "Close lib st t = Inr (r, st')"
  shows "wf_world st'"
  using assms
  by (auto simp: Close_def wf_world_def split: option.splits)

lemma wf_world_NoopTracer:
  assumes "wf_world st"
  shows "\<exists>n T. NoopTracer st = Some n \<and> lookup (tracers st) n = Some T \<and> closer T = None"
proof -
  from assms obtain n where n: "NoopTracer st = Some n"
    by (cases "NoopTracer st") (simp_all add: wf_world_def)
  with assms obtain T where "lookup (tracers st) n = Some T" and "closer T = None"
    by (cases "lookup (tracers st) n") (simp_all add: wf_world_def)
  with n show ?thesis by blast
qed

lemma init_NoopTracer:
  assumes "init lib st0 = Inr st"
  shows "\<exists>n T. NoopTracer st = Some n \<and> lookup (tracers st) n = Some T \<and> closer T = None"
proof (cases "NewTracer lib None []")
  case (Inl err)
  with assms show ?thesis
    by (simp add: init_def alloc_Tracer_def)
next
  case (Inr e)
  let ?T = "\<lparr>tracer = Some e, tags = Map.empty, closer = None\<rparr>"
  from Inr assms have "NoopTracer st = Some (length (tracers st0))"
    and "tracers st = tracers st0 @ [?T]"
    by (auto simp: init_def alloc_Tracer_def alloc_span_def engine_StartSpan_def)
  then have "NoopTracer st = Some (length (tracers st0))"
    and "lookup (tracers st) (length (tracers st0)) = Some ?T" and "closer ?T = None"
    by (simp_all add: lookup_def)
  then show ?thesis by blast
qed

subsection \<open>What a successful construction is\<close>

lemma New_builds:
  assumes "Zipkin s = Some z"
    and "rep = (if DisableReport z then NoopReporter (reporters_made st)
                else HTTPReporter (reporters_made st) (ServerURL z))"
    and "NewEndpoint lib (ServiceName s) (Hostport z) = Inr ep"
    and "NewBoundarySampler lib (SampleRate z) (Unix (fasttime_now st)) = Inr sm"
    and "NewTracer lib (Some rep)
           [WithLocalEndpoint ep, WithSharedSpans (SameSpan z), WithTraceID128Bit (ID128Bit z),
            WithSampler sm, WithTags (Tags s)] = Inr eng"
  shows "New lib st (Some s)
           = Inr ((Some (length (tracers st)), None),
                  st\<lparr>events := ClockRead # events st,
                     reporters_made := Suc (reporters_made st),
                     tracers := tracers st
                        @ [\<lparr>tracer = Some eng, tags = Map.empty, closer = Some rep\<rparr>]\<rparr>)"
  using assms by (cases "DisableReport z") (simp_all add: pkg_defs)

lemma New_success_cases:
  assumes "New lib st (Some s) = Inr ((t, None), st')" and "Zipkin s = Some z"
  shows "\<exists>ep sm eng.
           NewEndpoint lib (ServiceName s) (Hostport z) = Inr ep
           \<and> NewBoundarySampler lib (SampleRate z) (Unix (fasttime_now st)) = Inr sm
           \<and> NewTracer lib
                 (Some (if DisableReport z then NoopReporter (reporters_made st)
                        else HTTPReporter (reporters_made st) (ServerURL z)))
                 [WithLocalEndpoint ep, WithSharedSpans (SameSpan z),
                  WithTraceID128Bit (ID128Bit z), WithSampler sm, WithTags (Tags s)] = Inr eng"
proof -
  let ?rep = "if DisableReport z then NoopReporter (reporters_made st)
              else HTTPReporter (reporters_made st) (ServerURL z)"
  from assms obtain ep where ep: "NewEndpoint lib (ServiceName s) (Hostport z) = Inr ep"
    by (cases "NewEndpoint lib (ServiceName s) (Hostport z)") (auto simp: New_def)
  from assms ep obtain sm where
    sm: "NewBoundarySampler lib (SampleRate z) (Unix (fasttime_now st)) = Inr sm"
    by (cases "NewBoundarySampler lib (SampleRate z) (Unix (fasttime_now st))")
      (auto simp: New_def fasttime_Now_def)
  let ?opts = "[WithLocalEndpoint ep, WithSharedSpans (SameSpan z),
                WithTraceID128Bit (ID128Bit z), WithSampler sm, WithTags (Tags s)]"
  from assms ep sm obtain eng where "NewTracer lib (Some ?rep) ?opts = Inr eng"
    by (cases "NewTracer lib (Some ?rep) ?opts") (auto simp: pkg_defs split: if_splits)
  with ep sm show ?thesis by blast
qed

subsection \<open>Ownership of the Reporters is an invariant\<close>

lemma closers_append:
  "closers (st\<lparr>tracers := tracers st @ [T]\<rparr>)
     = closers st @ (case closer T of None \<Rightarrow> [] | Some r \<Rightarrow> [r])"
  by (simp add: closers_def)

lemma lookup_closer_in_closers:
  assumes "lookup (tracers st) p = Some T" and "closer T = Some r"
  shows "r \<in> set (closers st)"
proof -
  from assms(1) have "T \<in> set (tracers st)"
    by (auto simp: lookup_def split: if_splits)
  with assms(2) show ?thesis
    by (force simp: closers_def)
qed

lemma sole_owners_made:
  assumes "sole_owners st" and "r \<in> set (closers st)"
  shows "reporter_id r < reporters_made st"
  using assms by (simp add: sole_owners_def list_all_iff)

lemma sole_owners_add:
  assumes "sole_owners st" and "reporter_id r = reporters_made st"
  shows "sole_owners (st\<lparr>events := ev, reporters_made := Suc (reporters_made st),
                        tracers := tracers st @ [\<lparr>tracer = e, tags = tg, closer = Some r\<rparr>]\<rparr>)"
proof -
  have "closers (st\<lparr>events := ev, reporters_made := Suc (reporters_made st),
                    tracers := tracers st @ [\<lparr>tracer = e, tags = tg, closer = Some r\<rparr>]\<rparr>)
      = closers st @ [r]"
    by (simp add: closers_def)
  moreover have "reporter_id r \<notin> reporter_id ` set (closers st)"
  proof
    assume "reporter_id r \<in> reporter_id ` set (closers st)"
    then obtain x where "x \<in> set (closers st)" and "reporter_id x = reporter_id r"
      by auto
    with sole_owners_made [OF assms(1), of x] assms(2) show False
      by simp
  qed
  moreover have "list_all (\<lambda>x. reporter_id x < Suc (reporters_made st)) (closers st)"
    using sole_owners_made [OF assms(1)] by (auto simp: list_all_iff less_Suc_eq)
  ultimately show ?thesis
    using assms by (simp add: sole_owners_def)
qed

lemma init_sole_owners:
  assumes "sole_owners st" and "init lib st = Inr st'"
  shows "sole_owners st'"
proof (cases "NewTracer lib None []")
  case (Inl err)
  with assms(2) show ?thesis by (simp add: init_def alloc_Tracer_def)
next
  case (Inr e)
  with assms(2) have "closers st' = closers st" and "reporters_made st' = reporters_made st"
    by (auto simp: init_def alloc_Tracer_def alloc_span_def engine_StartSpan_def closers_def)
  with assms(1) show ?thesis by (simp add: sole_owners_def)
qed

lemma sole_owners_cong:
  assumes "sole_owners st" and "tracers st' = tracers st"
    and "reporters_made st \<le> reporters_made st'"
  shows "sole_owners st'"
proof -
  from assms(2) have c: "closers st' = closers st"
    by (simp add: closers_def)
  from assms(1,3) have "list_all (\<lambda>r. reporter_id r < reporters_made st') (closers st)"
    by (auto simp: sole_owners_def list_all_iff)
  with assms(1) c show ?thesis
    by (simp add: sole_owners_def)
qed

lemma sole_owners_boot: "sole_owners boot"
  by (simp add: sole_owners_def closers_def boot_def)

lemma New_sole_owners:
  assumes "sole_owners st" and "New lib st spec = Inr (r, st')"
  shows "sole_owners st'"
proof (cases spec)
  case None
  with assms show ?thesis by (simp add: New_def)
next
  case (Some s)
  show ?thesis
  proof (cases "tracers st' = tracers st")
    case True
    moreover from assms(2) Some have "reporters_made st \<le> reporters_made st'"
      by (auto simp: pkg_defs Let_def split: sum.splits option.splits if_splits)
    ultimately show ?thesis
      using sole_owners_cong [OF assms(1)] by blast
  next
    case False
    with assms(2) Some obtain e rep where
      "st' = st\<lparr>events := ClockRead # events st, reporters_made := Suc (reporters_made st),
                tracers := tracers st @ [\<lparr>tracer = e, tags = Map.empty, closer = Some rep\<rparr>]\<rparr>"
      and "reporter_id rep = reporters_made st"
      by (auto simp: pkg_defs Let_def split: sum.splits option.splits if_splits)
    with sole_owners_add [OF assms(1)] show ?thesis by blast
  qed
qed

lemma newSpanWithStart_sole_owners:
  assumes "sole_owners st" and "newSpanWithStart lib st t name startAt = Inr (r, st')"
  shows "sole_owners st'"
proof -
  from assms(2) have "tracers st' = tracers st" and "reporters_made st \<le> reporters_made st'"
    by (auto simp: pkg_defs Let_def split: sum.splits option.splits if_splits)
  with sole_owners_cong [OF assms(1)] show ?thesis by blast
qed

lemma NewSpanWithStart_sole_owners:
  assumes "sole_owners st" and "NewSpanWithStart lib st t name startAt = Inr (r, st')"
  shows "sole_owners st'"
  using assms newSpanWithStart_sole_owners [of st lib t name startAt r st']
  by (auto simp: NewSpanWithStart_def split: if_splits)

lemma NewSpan_sole_owners:
  assumes "sole_owners st" and "NewSpan lib st t name = Inr (r, st')"
  shows "sole_owners st'"
proof (cases "IsNoopTracer st t")
  case True
  with assms show ?thesis by (simp add: NewSpan_def)
next
  case False
  have "sole_owners (snd (fasttime_Now st))"
    using sole_owners_cong [OF assms(1), of "snd (fasttime_Now st)"]
    by (simp add: fasttime_Now_def)
  moreover from False assms(2) have
    "newSpanWithStart lib (snd (fasttime_Now st)) t name (fst (fasttime_Now st)) = Inr (r, st')"
    by (simp add: NewSpan_def split_beta)
  ultimately show ?thesis
    by (rule newSpanWithStart_sole_owners)
qed

lemma Close_sole_owners:
  assumes "sole_owners st" and "Close lib st t = Inr (r, st')"
  shows "sole_owners st'"
proof -
  from assms(2) have "tracers st' = tracers st" and "reporters_made st \<le> reporters_made st'"
    by (auto simp: Close_def split: option.splits)
  with sole_owners_cong [OF assms(1)] show ?thesis by blast
qed

subsection \<open>The concrete states\<close>

lemma init_world0: "init spec_lib boot = Inr world0"
  by (simp add: init_def spec_lib_def boot_def world0_def alloc_Tracer_def alloc_span_def
      engine_StartSpan_def spec_StartSpan_def)

lemma wf_world0: "wf_world world0"
  by (simp add: wf_world_def world0_def lookup_def)

lemma New_world1:
  "New spec_lib world0 (Some (example_spec [] 1 off)) = Inr ((Some 1, None), world1 off)"
  by (simp add: pkg_defs spec_lib_def example_spec_def world0_def world1_def example_engine_def
      spec_NewEndpoint_def spec_NewBoundarySampler_def Unix_def Let_def)

lemma wf_world1: "wf_world (world1 off)"
  using New_wf [OF wf_world0 New_world1] .

lemma sole_owners_world0: "sole_owners world0"
  by (simp add: sole_owners_def closers_def world0_def)

subsection \<open>Tracer construction\<close>

text \<open>
  A Spec without a zipkin section: \<open>spec.Zipkin.Hostport\<close> dereferences the nil pointer
  before anything else is done.
\<close>

lemma New_nil_Zipkin: "Zipkin s = None \<Longrightarrow> New lib st (Some s) = Inl NilPointerDereference"
  by (simp add: New_def)

text \<open>
  C1. \<open>New(nil)\<close> returns the value of the package variable \<open>NoopTracer\<close> with a nil
  error and leaves the state as it is, and \<open>IsNoopTracer\<close> holds of what it returned.
\<close>

theorem New_nil:
  "New lib st None = Inr ((NoopTracer st, None), st) \<and> IsNoopTracer st (NoopTracer st)"
  by (simp add: New_def IsNoopTracer_def)

text \<open>
  C2 as stated fails: a Spec with \<open>disableReport = false\<close> and the server URL
  http://collector:9411 is refused when its sample rate is 2, and when its hostport is
  "not-an-endpoint". In both runs \<open>New\<close> returns a nil Tracer and the library's error.
\<close>

theorem New_valid_url_counterexample:
  "New spec_lib world0 (Some (example_spec [] 2 False))
     = Inr ((None, Some ''invalid sample rate''), world0\<lparr>events := ClockRead # events world0\<rparr>)
   \<and> New spec_lib world0 (Some (example_spec ''not-an-endpoint'' 1 False))
     = Inr ((None, Some ''invalid hostport''), world0)"
  by (simp add: pkg_defs spec_lib_def example_spec_def
      spec_NewEndpoint_def spec_NewBoundarySampler_def Unix_def valid_hostport_def Let_def)

text \<open>
  C2, amended. For a Spec with a zipkin section and \<open>disableReport = false\<close>, whatever
  its server URL: when the endpoint is resolved, the sampler is built and the engine is
  constructed, \<open>New\<close> returns a nil error and a \<open>Tracer\<close> at an address that was not
  allocated before, which is not the Noop Tracer and holds the engine and the HTTP
  reporter of the server URL.
\<close>

theorem New_fresh_tracer:
  assumes "wf_world st" and "Zipkin s = Some z" and "\<not> DisableReport z"
    and "NewEndpoint lib (ServiceName s) (Hostport z) = Inr ep"
    and "NewBoundarySampler lib (SampleRate z) (Unix (fasttime_now st)) = Inr sm"
    and "NewTracer lib (Some (HTTPReporter (reporters_made st) (ServerURL z)))
           [WithLocalEndpoint ep, WithSharedSpans (SameSpan z), WithTraceID128Bit (ID128Bit z),
            WithSampler sm, WithTags (Tags s)] = Inr eng"
  shows "\<exists>p st'. New lib st (Some s) = Inr ((Some p, None), st')
           \<and> \<not> IsNoopTracer st' (Some p) \<and> Some p \<noteq> NoopTracer st
           \<and> lookup (tracers st) p = None
           \<and> lookup (tracers st') p
               = Some \<lparr>tracer = Some eng, tags = Map.empty,
                       closer = Some (HTTPReporter (reporters_made st) (ServerURL z))\<rparr>"
proof -
  let ?p = "length (tracers st)"
  let ?T = "\<lparr>tracer = Some eng, tags = Map.empty,
             closer = Some (HTTPReporter (reporters_made st) (ServerURL z))\<rparr>"
  let ?st' = "st\<lparr>events := ClockRead # events st,
                 reporters_made := Suc (reporters_made st),
                 tracers := tracers st @ [?T]\<rparr>"
  have run: "New lib st (Some s) = Inr ((Some ?p, None), ?st')"
    using assms(2-6) by (simp add: pkg_defs)
  from assms(1) obtain n where n: "NoopTracer st = Some n" "n < ?p"
    by (auto simp: wf_world_def lookup_def split: option.splits if_splits)
  then have "Some ?p \<noteq> NoopTracer st" by simp
  moreover have "\<not> IsNoopTracer ?st' (Some ?p)"
    using n by (simp add: IsNoopTracer_def)
  moreover have "lookup (tracers st) ?p = None"
    by (simp add: lookup_def)
  moreover have "lookup (tracers ?st') ?p = Some ?T"
    by (simp add: lookup_def)
  ultimately show ?thesis using run by blast
qed

theorem New_fresh_tracer_witness:
  "\<exists>p st'. New spec_lib world0 (Some (example_spec [] 1 False)) = Inr ((Some p, None), st')
     \<and> \<not> IsNoopTracer st' (Some p) \<and> Some p \<noteq> NoopTracer world0
     \<and> lookup (tracers world0) p = None
     \<and> lookup (tracers st') p
         = Some \<lparr>tracer = Some (example_engine False), tags = Map.empty,
                 closer = Some (HTTPReporter 0 ''http://collector:9411'')\<rparr>"
  using New_fresh_tracer [of world0 "example_spec [] 1 False"
      "\<lparr>Hostport = [], ServerURL = ''http://collector:9411'', DisableReport = False,
        SampleRate = 1, SameSpan = False, ID128Bit = False\<rparr>"
      spec_lib "Some (Endpoint ''svc'' [])" "BoundarySampler 1 1700000000" "example_engine False"]
    wf_world0
  by (simp add: spec_lib_def example_spec_def example_engine_def spec_NewEndpoint_def
      spec_NewBoundarySampler_def Unix_def world0_def)

text \<open>
  C4. For a Spec with a zipkin section: when resolving the endpoint fails, or building
  the sampler fails, \<open>New\<close> returns at once a nil \<open>Tracer\<close> and an error, which is the
  error of the step that failed; no \<open>Tracer\<close> and no span is allocated.
\<close>

theorem New_config_error:
  assumes "Zipkin s = Some z"
    and "isl (NewEndpoint lib (ServiceName s) (Hostport z))
         \<or> isl (NewBoundarySampler lib (SampleRate z) (Unix (fasttime_now st)))"
  shows "\<exists>e st'. New lib st (Some s) = Inr ((None, Some e), st')
           \<and> (NewEndpoint lib (ServiceName s) (Hostport z) = Inl e
              \<or> NewBoundarySampler lib (SampleRate z) (Unix (fasttime_now st)) = Inl e)
           \<and> tracers st' = tracers st \<and> spans st' = spans st"
proof (cases "NewEndpoint lib (ServiceName s) (Hostport z)")
  case (Inl e)
  with assms(1) have "New lib st (Some s) = Inr ((None, Some e), st)"
    by (simp add: New_def)
  with Inl show ?thesis by blast
next
  case (Inr ep)
  with assms(2) obtain e where
    e: "NewBoundarySampler lib (SampleRate z) (Unix (fasttime_now st)) = Inl e"
    by (cases "NewBoundarySampler lib (SampleRate z) (Unix (fasttime_now st))") auto
  with assms(1) Inr have
    "New lib st (Some s) = Inr ((None, Some e), st\<lparr>events := ClockRead # events st\<rparr>)"
    by (simp add: New_def fasttime_Now_def)
  moreover have "tracers (st\<lparr>events := ClockRead # events st\<rparr>) = tracers st"
    and "spans (st\<lparr>events := ClockRead # events st\<rparr>) = spans st"
    by simp_all
  ultimately show ?thesis using e by blast
qed

theorem New_config_error_witness:
  "\<exists>e st'. New spec_lib world0 (Some (example_spec ''not-an-endpoint'' 2 True))
              = Inr ((None, Some e), st')
     \<and> (spec_NewEndpoint ''svc'' ''not-an-endpoint'' = Inl e
        \<or> spec_NewBoundarySampler 2 1700000000 = Inl e)
     \<and> tracers st' = tracers world0 \<and> spans st' = spans world0"
  using New_config_error [of "example_spec ''not-an-endpoint'' 2 True"
      "\<lparr>Hostport = ''not-an-endpoint'', ServerURL = ''http://collector:9411'',
        DisableReport = True, SampleRate = 2, SameSpan = False, ID128Bit = False\<rparr>"
      spec_lib world0]
  by (simp add: spec_lib_def example_spec_def spec_NewBoundarySampler_def Unix_def world0_def)

text \<open>
  C8. For a Spec with a zipkin section, let the selected Reporter be a new discarding
  Reporter when \<open>disableReport\<close> is true and a new HTTP reporter of \<open>serverURL\<close>
  otherwise. When the endpoint, the sampler and the engine (constructed with that
  Reporter) are obtained, \<open>New\<close> succeeds, and the \<open>closer\<close> of the \<open>Tracer\<close> it returns
  is that very Reporter, the one the engine was constructed with; it is discarding
  exactly when \<open>disableReport\<close> is true; one Reporter was made; and no other \<open>Tracer\<close>
  on the heap has it as closer. Conversely, whenever \<open>New\<close> succeeds, these three steps
  succeeded and the returned \<open>Tracer\<close> is of that form.
\<close>

theorem New_reporter:
  assumes "sole_owners st" and "Zipkin s = Some z"
    and "rep = (if DisableReport z then NoopReporter (reporters_made st)
                else HTTPReporter (reporters_made st) (ServerURL z))"
  shows
    "(\<forall>ep sm eng.
        NewEndpoint lib (ServiceName s) (Hostport z) = Inr ep
        \<and> NewBoundarySampler lib (SampleRate z) (Unix (fasttime_now st)) = Inr sm
        \<and> NewTracer lib (Some rep)
              [WithLocalEndpoint ep, WithSharedSpans (SameSpan z),
               WithTraceID128Bit (ID128Bit z), WithSampler sm, WithTags (Tags s)] = Inr eng
        \<longrightarrow> (\<exists>p st'. New lib st (Some s) = Inr ((Some p, None), st')
               \<and> lookup (tracers st') p
                   = Some \<lparr>tracer = Some eng, tags = Map.empty, closer = Some rep\<rparr>
               \<and> (\<exists>i. rep = NoopReporter i) = DisableReport z
               \<and> (rep = HTTPReporter (reporters_made st) (ServerURL z)) = (\<not> DisableReport z)
               \<and> reporters_made st' = Suc (reporters_made st)
               \<and> (\<forall>p' T'. lookup (tracers st') p' = Some T' \<and> closer T' = Some rep
                            \<longrightarrow> p' = p)
               \<and> sole_owners st'))
     \<and> (\<forall>t st'. New lib st (Some s) = Inr ((t, None), st')
          \<longrightarrow> (\<exists>ep sm eng p T.
                 NewEndpoint lib (ServiceName s) (Hostport z) = Inr ep
                 \<and> NewBoundarySampler lib (SampleRate z) (Unix (fasttime_now st)) = Inr sm
                 \<and> NewTracer lib (Some rep)
                       [WithLocalEndpoint ep, WithSharedSpans (SameSpan z),
                        WithTraceID128Bit (ID128Bit z), WithSampler sm, WithTags (Tags s)]
                     = Inr eng
                 \<and> t = Some p \<and> lookup (tracers st') p = Some T
                 \<and> tracer T = Some eng \<and> closer T = Some rep))"
proof (intro conjI allI impI)
  fix ep sm eng
  assume steps:
    "NewEndpoint lib (ServiceName s) (Hostport z) = Inr ep
     \<and> NewBoundarySampler lib (SampleRate z) (Unix (fasttime_now st)) = Inr sm
     \<and> NewTracer lib (Some rep)
           [WithLocalEndpoint ep, WithSharedSpans (SameSpan z),
            WithTraceID128Bit (ID128Bit z), WithSampler sm, WithTags (Tags s)] = Inr eng"
  let ?p = "length (tracers st)"
  let ?T = "\<lparr>tracer = Some eng, tags = Map.empty, closer = Some rep\<rparr>"
  let ?st' = "st\<lparr>events := ClockRead # events st,
                 reporters_made := Suc (reporters_made st),
                 tracers := tracers st @ [?T]\<rparr>"
  from steps have run: "New lib st (Some s) = Inr ((Some ?p, None), ?st')"
    using New_builds [OF assms(2,3)] by blast
  have new: "lookup (tracers ?st') ?p = Some ?T"
    by (simp add: lookup_def)
  have id: "reporter_id rep = reporters_made st"
    using assms(3) by simp
  have kind: "(\<exists>i. rep = NoopReporter i) = DisableReport z"
    and url: "(rep = HTTPReporter (reporters_made st) (ServerURL z)) = (\<not> DisableReport z)"
    using assms(3) by simp_all
  have made: "reporters_made ?st' = Suc (reporters_made st)"
    by simp
  have only: "\<forall>p' T'. lookup (tracers ?st') p' = Some T' \<and> closer T' = Some rep \<longrightarrow> p' = ?p"
  proof (intro allI impI)
    fix p' T'
    assume h: "lookup (tracers ?st') p' = Some T' \<and> closer T' = Some rep"
    show "p' = ?p"
    proof (rule ccontr)
      assume "p' \<noteq> ?p"
      with h have "lookup (tracers st) p' = Some T'"
        by (auto simp: lookup_def nth_append split: if_splits)
      with h have "rep \<in> set (closers st)"
        using lookup_closer_in_closers by blast
      from sole_owners_made [OF assms(1) this] id show False by simp
    qed
  qed
  have inv: "sole_owners ?st'"
    using sole_owners_add [OF assms(1) id] .
  from run new kind url made only inv
  show "\<exists>p st'. New lib st (Some s) = Inr ((Some p, None), st')
          \<and> lookup (tracers st') p = Some ?T
          \<and> (\<exists>i. rep = NoopReporter i) = DisableReport z
          \<and> (rep = HTTPReporter (reporters_made st) (ServerURL z)) = (\<not> DisableReport z)
          \<and> reporters_made st' = Suc (reporters_made st)
          \<and> (\<forall>p' T'. lookup (tracers st') p' = Some T' \<and> closer T' = Some rep \<longrightarrow> p' = p)
          \<and> sole_owners st'"
    by blast
next
  fix t st'
  assume ok: "New lib st (Some s) = Inr ((t, None), st')"
  from New_success_cases [OF ok assms(2)] assms(3) obtain ep sm eng where
    steps: "NewEndpoint lib (ServiceName s) (Hostport z) = Inr ep"
      "NewBoundarySampler lib (SampleRate z) (Unix (fasttime_now st)) = Inr sm"
      "NewTracer lib (Some rep)
         [WithLocalEndpoint ep, WithSharedSpans (SameSpan z),
          WithTraceID128Bit (ID128Bit z), WithSampler sm, WithTags (Tags s)] = Inr eng"
    by auto
  let ?T = "\<lparr>tracer = Some eng, tags = Map.empty, closer = Some rep\<rparr>"
  from New_builds [OF assms(2,3) steps] ok
  have t: "t = Some (length (tracers st))"
    and st': "tracers st' = tracers st @ [?T]"
    by simp_all
  from st' have "lookup (tracers st') (length (tracers st)) = Some ?T"
    by (simp add: lookup_def)
  moreover have "tracer ?T = Some eng" and "closer ?T = Some rep"
    by simp_all
  ultimately show "\<exists>ep sm eng p T.
      NewEndpoint lib (ServiceName s) (Hostport z) = Inr ep
      \<and> NewBoundarySampler lib (SampleRate z) (Unix (fasttime_now st)) = Inr sm
      \<and> NewTracer lib (Some rep)
            [WithLocalEndpoint ep, WithSharedSpans (SameSpan z),
             WithTraceID128Bit (ID128Bit z), WithSampler sm, WithTags (Tags s)] = Inr eng
      \<and> t = Some p \<and> lookup (tracers st') p = Some T
      \<and> tracer T = Some eng \<and> closer T = Some rep"
    using steps t by blast
qed

theorem New_reporter_witness:
  "(\<exists>p st'. New spec_lib world0 (Some (example_spec [] 1 True)) = Inr ((Some p, None), st')
      \<and> lookup (tracers st') p
          = Some \<lparr>tracer = Some (example_engine True), tags = Map.empty,
                  closer = Some (NoopReporter 0)\<rparr>
      \<and> reporters_made st' = 1 \<and> sole_owners st')
   \<and> (\<exists>p st'. New spec_lib world0 (Some (example_spec [] 1 False)) = Inr ((Some p, None), st')
      \<and> lookup (tracers st') p
          = Some \<lparr>tracer = Some (example_engine False), tags = Map.empty,
                  closer = Some (HTTPReporter 0 ''http://collector:9411'')\<rparr>
      \<and> reporters_made st' = 1 \<and> sole_owners st')"
proof -
  have z: "Zipkin (example_spec [] 1 off)
      = Some \<lparr>Hostport = [], ServerURL = ''http://collector:9411'', DisableReport = off,
               SampleRate = 1, SameSpan = False, ID128Bit = False\<rparr>" for off
    by (simp add: example_spec_def)
  have on: "\<exists>p st'. New spec_lib world0 (Some (example_spec [] 1 True))
        = Inr ((Some p, None), st')
      \<and> lookup (tracers st') p
          = Some \<lparr>tracer = Some (example_engine True), tags = Map.empty,
                  closer = Some (NoopReporter 0)\<rparr>
      \<and> reporters_made st' = 1 \<and> sole_owners st'"
    using New_reporter [OF sole_owners_world0 z [of True], of "NoopReporter 0" spec_lib,
        THEN conjunct1, THEN spec, THEN spec, THEN spec,
        of "Some (Endpoint ''svc'' [])" "BoundarySampler 1 1700000000" "example_engine True"]
    by (simp add: example_spec_def example_engine_def spec_lib_def spec_NewEndpoint_def
        spec_NewBoundarySampler_def Unix_def world0_def) blast
  have off: "\<exists>p st'. New spec_lib world0 (Some (example_spec [] 1 False))
        = Inr ((Some p, None), st')
      \<and> lookup (tracers st') p
          = Some \<lparr>tracer = Some (example_engine False), tags = Map.empty,
                  closer = Some (HTTPReporter 0 ''http://collector:9411'')\<rparr>
      \<and> reporters_made st' = 1 \<and> sole_owners st'"
    using New_reporter [OF sole_owners_world0 z [of False],
        of "HTTPReporter 0 ''http://collector:9411''" spec_lib,
        THEN conjunct1, THEN spec, THEN spec, THEN spec,
        of "Some (Endpoint ''svc'' [])" "BoundarySampler 1 1700000000" "example_engine False"]
    by (simp add: example_spec_def example_engine_def spec_lib_def spec_NewEndpoint_def
        spec_NewBoundarySampler_def Unix_def world0_def) blast
  from on off show ?thesis by blast
qed

subsection \<open>Validation\<close>

text \<open>
  C3. \<open>Validate\<close> returns an error exactly when the hostport is not empty and the
  library does not resolve it as a "host:port" endpoint, and the error is the
  library's; it leaves the state as it is; it accepts the empty hostport; and with the
  endpoint parser of the spec it rejects "not-an-endpoint".
\<close>

theorem Validate_error_iff:
  "(fst (Validate lib st s) = Some e)
     = (Hostport s \<noteq> [] \<and> NewEndpoint lib [] (Hostport s) = Inl e)
   \<and> snd (Validate lib st s) = st
   \<and> fst (Validate lib st (s\<lparr>Hostport := []\<rparr>)) = None
   \<and> fst (Validate spec_lib st (s\<lparr>Hostport := ''not-an-endpoint''\<rparr>))
       = Some ''invalid hostport''"
proof -
  have "(fst (Validate lib st s) = Some e)
      = (Hostport s \<noteq> [] \<and> NewEndpoint lib [] (Hostport s) = Inl e)"
    by (cases "NewEndpoint lib [] (Hostport s)") (auto simp: Validate_def)
  moreover have "snd (Validate lib st s) = st"
    by (simp add: Validate_def split: sum.splits)
  moreover have "fst (Validate lib st (s\<lparr>Hostport := []\<rparr>)) = None"
    by (simp add: Validate_def)
  moreover have "fst (Validate spec_lib st (s\<lparr>Hostport := ''not-an-endpoint''\<rparr>))
      = Some ''invalid hostport''"
    by (simp add: Validate_def spec_lib_def spec_NewEndpoint_def valid_hostport_def)
  ultimately show ?thesis by blast
qed

text \<open>
  C10. The outcome of \<open>Validate\<close> depends on the hostport only: two ZipkinSpecs with
  the same hostport get the same outcome, whatever their other fields and the state; and
  a spec whose hostport is empty or resolved passes, whatever its server URL and
  sample rate.
\<close>

theorem Validate_only_Hostport:
  assumes "Hostport a = Hostport b"
  shows "fst (Validate lib st a) = fst (Validate lib st' b)
         \<and> (Hostport a = [] \<or> \<not> isl (NewEndpoint lib [] (Hostport a))
              \<longrightarrow> fst (Validate lib st a) = None \<and> fst (Validate lib st' b) = None)"
  using assms by (auto simp: Validate_def split: sum.splits)

theorem Validate_only_Hostport_witness:
  "fst (Validate spec_lib world0
          \<lparr>Hostport = ''localhost:8080'', ServerURL = ''http://collector:9411'',
           DisableReport = False, SampleRate = 1/2, SameSpan = False, ID128Bit = False\<rparr>)
     = fst (Validate spec_lib (world1 True)
          \<lparr>Hostport = ''localhost:8080'', ServerURL = '':::not a url'',
           DisableReport = True, SampleRate = 7, SameSpan = True, ID128Bit = True\<rparr>)
   \<and> fst (Validate spec_lib (world1 True)
          \<lparr>Hostport = ''localhost:8080'', ServerURL = '':::not a url'',
           DisableReport = True, SampleRate = 7, SameSpan = True, ID128Bit = True\<rparr>) = None
   \<and> fst (Validate spec_lib world0
          \<lparr>Hostport = [], ServerURL = [],
           DisableReport = False, SampleRate = - 1, SameSpan = False, ID128Bit = False\<rparr>) = None"
proof -
  have ok: "\<not> isl (NewEndpoint spec_lib [] ''localhost:8080'')"
    by (simp add: spec_lib_def spec_NewEndpoint_def valid_hostport_def is_digit_def port_value_def)
  from Validate_only_Hostport [of
      "\<lparr>Hostport = ''localhost:8080'', ServerURL = ''http://collector:9411'',
        DisableReport = False, SampleRate = 1/2, SameSpan = False, ID128Bit = False\<rparr>"
      "\<lparr>Hostport = ''localhost:8080'', ServerURL = '':::not a url'',
        DisableReport = True, SampleRate = 7, SameSpan = True, ID128Bit = True\<rparr>"
      spec_lib world0 "world1 True"]
    Validate_only_Hostport [of
      "\<lparr>Hostport = [], ServerURL = [],
        DisableReport = False, SampleRate = - 1, SameSpan = False, ID128Bit = False\<rparr>"
      "\<lparr>Hostport = [], ServerURL = [],
        DisableReport = False, SampleRate = - 1, SameSpan = False, ID128Bit = False\<rparr>"
      spec_lib world0 world0] ok
  show ?thesis by simp
qed

subsection \<open>Span creation\<close>

text \<open>
  C5. On the Noop Tracer, \<open>NewSpan\<close> and \<open>NewSpanWithStart\<close> both return the value of
  the package variable \<open>NoopSpan\<close>, an allocated span, and leave the state as it is: no
  clock read and no span started on the engine is logged, and no span is allocated.
\<close>

theorem NoopTracer_NoopSpan:
  assumes "wf_world st" and "IsNoopTracer st t"
  shows "\<exists>q. NoopSpan st = Some q \<and> q < length (spans st)
           \<and> NewSpan lib st t name = Inr (Some q, st)
           \<and> NewSpanWithStart lib st t name startAt = Inr (Some q, st)"
proof -
  from assms(1) obtain q where "NoopSpan st = Some q" and "q < length (spans st)"
    by (auto simp: wf_world_def split: option.splits)
  with assms(2) show ?thesis
    by (simp add: NewSpan_def NewSpanWithStart_def)
qed

theorem NoopTracer_NoopSpan_witness:
  "NoopSpan world0 = Some 0 \<and> 0 < length (spans world0)
     \<and> NewSpan spec_lib world0 (Some 0) ''GET /'' = Inr (Some 0, world0)
     \<and> NewSpanWithStart spec_lib world0 (Some 0) ''GET /'' 1699996400000000000
         = Inr (Some 0, world0)"
  using NoopTracer_NoopSpan [OF wf_world0, of "Some 0" spec_lib "''GET /''" 1699996400000000000]
  by (simp add: IsNoopTracer_def world0_def)

lemma spec_StartSpan_StartTime:
  "spec_StartSpan e name [StartTime t0] = \<lparr>Name = name, Timestamp = t0\<rparr>"
  by (simp add: spec_StartSpan_def)

lemma NewSpanWithStart_passes_start:
  assumes "\<not> IsNoopTracer st (Some p)"
    and "lookup (tracers st) p = Some T" and "tracer T = Some e"
  shows "NewSpanWithStart lib st (Some p) name t0
           = Inr (Some (length (spans st)),
                  st\<lparr>events := SpanStarted e name [StartTime t0] # events st,
                     spans := spans st
                       @ [\<lparr>Span = StartSpan lib e name [StartTime t0], span_tracer = Some p\<rparr>]\<rparr>)"
  using assms
  by (simp add: NewSpanWithStart_def newSpanWithStart_def engine_StartSpan_def alloc_span_def)

text \<open>
  C6. With the engine of the spec, which starts a span at the start time it is given:
  on a \<open>Tracer\<close> that is not the Noop Tracer, for every name and every time \<open>t0\<close>,
  \<open>NewSpanWithStart\<close> returns a new span whose recorded start time is \<open>t0\<close>, with the
  name given and pointing back to the \<open>Tracer\<close>. The engine is asked once, with \<open>t0\<close> as
  the only option; no clock is read, and the cached clock has no part in the result.
\<close>

theorem NewSpanWithStart_start:
  assumes "\<not> IsNoopTracer st (Some p)"
    and "lookup (tracers st) p = Some T" and "tracer T = Some e"
  shows "\<exists>q sp st'.
           NewSpanWithStart (lib\<lparr>StartSpan := spec_StartSpan\<rparr>) st (Some p) name t0
             = Inr (Some q, st')
           \<and> lookup (spans st) q = None \<and> lookup (spans st') q = Some sp
           \<and> Timestamp (Span sp) = t0 \<and> Name (Span sp) = name \<and> span_tracer sp = Some p
           \<and> events st' = SpanStarted e name [StartTime t0] # events st
           \<and> fasttime_now st' = fasttime_now st"
proof -
  let ?lib = "lib\<lparr>StartSpan := spec_StartSpan\<rparr>"
  let ?sp = "\<lparr>Span = \<lparr>Name = name, Timestamp = t0\<rparr>, span_tracer = Some p\<rparr>"
  let ?st' = "st\<lparr>events := SpanStarted e name [StartTime t0] # events st,
                 spans := spans st @ [?sp]\<rparr>"
  have "StartSpan ?lib e name [StartTime t0] = \<lparr>Name = name, Timestamp = t0\<rparr>"
    by (simp add: spec_StartSpan_StartTime)
  with NewSpanWithStart_passes_start [OF assms, of ?lib name t0]
  have run: "NewSpanWithStart ?lib st (Some p) name t0 = Inr (Some (length (spans st)), ?st')"
    by simp
  have "lookup (spans st) (length (spans st)) = None"
    and "lookup (spans ?st') (length (spans st)) = Some ?sp"
    by (simp_all add: lookup_def)
  moreover have "Timestamp (Span ?sp) = t0" and "Name (Span ?sp) = name"
    and "span_tracer ?sp = Some p"
    by simp_all
  moreover have "events ?st' = SpanStarted e name [StartTime t0] # events st"
    and "fasttime_now ?st' = fasttime_now st"
    by simp_all
  ultimately show ?thesis using run by blast
qed

theorem NewSpanWithStart_start_witness:
  "(\<exists>q sp st'. NewSpanWithStart spec_lib (world1 False) (Some 1) ''GET /'' 1699996400000000000
                  = Inr (Some q, st')
      \<and> lookup (spans st') q = Some sp
      \<and> Timestamp (Span sp) = fasttime_now (world1 False) - 3600 * 1000000000)
   \<and> (\<exists>q sp st'. NewSpanWithStart spec_lib (world1 False) (Some 1) ''GET /'' 1700003600000000000
                  = Inr (Some q, st')
      \<and> lookup (spans st') q = Some sp
      \<and> Timestamp (Span sp) = fasttime_now (world1 False) + 3600 * 1000000000)
   \<and> (\<exists>q sp st'. NewSpanWithStart spec_lib (world1 False) (Some 1) ''GET /'' 0
                  = Inr (Some q, st')
      \<and> lookup (spans st') q = Some sp
      \<and> Timestamp (Span sp) = 0)"
proof -
  let ?T = "\<lparr>tracer = Some (example_engine False), tags = Map.empty,
             closer = Some (HTTPReporter 0 ''http://collector:9411'')\<rparr>"
  have lib: "spec_lib\<lparr>StartSpan := spec_StartSpan\<rparr> = spec_lib"
    by (simp add: spec_lib_def)
  have n: "\<not> IsNoopTracer (world1 False) (Some 1)"
    by (simp add: IsNoopTracer_def world1_def world0_def)
  have l: "lookup (tracers (world1 False)) 1 = Some ?T"
    by (simp add: world1_def world0_def lookup_def)
  have e: "tracer ?T = Some (example_engine False)"
    by simp
  have now: "fasttime_now (world1 False) = 1700000000000000000"
    by (simp add: world1_def world0_def)
  from NewSpanWithStart_start [OF n l e, of spec_lib "''GET /''" 1699996400000000000]
    NewSpanWithStart_start [OF n l e, of spec_lib "''GET /''" 1700003600000000000]
    NewSpanWithStart_start [OF n l e, of spec_lib "''GET /''" 0]
  show ?thesis
    unfolding lib now by (simp, blast)
qed

text \<open>
  C9. In a well-formed state, \<open>NewSpan\<close> on any allocated \<open>Tracer\<close> (the Noop Tracer or
  one that \<open>New\<close> returned, see \<open>New_allocated\<close> and \<open>New_wf\<close>) does not panic: it
  returns a span, which is allocated, and the state stays well-formed. Its result has no
  error component.
\<close>

theorem NewSpan_total:
  assumes "wf_world st" and "p < length (tracers st)"
  shows "\<exists>q st'. NewSpan lib st (Some p) name = Inr (Some q, st')
           \<and> q < length (spans st') \<and> wf_world st'"
proof -
  from assms(1) obtain m where m: "NoopSpan st = Some m" "m < length (spans st)"
    by (auto simp: wf_world_def split: option.splits)
  from assms obtain e where e: "tracer (tracers st ! p) = Some e"
    by (auto simp: wf_world_def list_all_length)
  have "\<exists>q st'. NewSpan lib st (Some p) name = Inr (Some q, st') \<and> q < length (spans st')"
  proof (cases "IsNoopTracer st (Some p)")
    case True
    with m show ?thesis by (simp add: NewSpan_def)
  next
    case False
    with assms(2) e show ?thesis
      by (simp add: NewSpan_def newSpanWithStart_def fasttime_Now_def engine_StartSpan_def
          alloc_span_def lookup_def)
  qed
  then obtain q st' where r: "NewSpan lib st (Some p) name = Inr (Some q, st')"
    "q < length (spans st')" by blast
  from NewSpan_wf [OF assms(1) r(1)] r show ?thesis by blast
qed

theorem NewSpan_total_witness:
  "(\<exists>q st'. NewSpan spec_lib (world1 False) (Some 0) ''GET /'' = Inr (Some q, st')
      \<and> q < length (spans st') \<and> wf_world st')
   \<and> (\<exists>q st'. NewSpan spec_lib (world1 False) (Some 1) ''GET /'' = Inr (Some q, st')
      \<and> q < length (spans st') \<and> wf_world st')"
proof -
  have len: "length (tracers (world1 False)) = 2"
    by (simp add: world1_def world0_def)
  from NewSpan_total [OF wf_world1, of 0 False spec_lib "''GET /''"]
    NewSpan_total [OF wf_world1, of 1 False spec_lib "''GET /''"] len
  show ?thesis by simp
qed

subsection \<open>Shutdown\<close>

lemma Close_no_closer:
  assumes "NoopTracer st = Some n" and "lookup (tracers st) n = Some T" and "closer T = None"
  shows "Close lib st (NoopTracer st) = Inr (None, st)"
  using assms by (simp add: Close_def)

text \<open>
  C7. \<open>Close\<close> on an allocated \<open>Tracer\<close> with a closer calls the closer's \<open>Close\<close> (the
  call is logged) and returns its result, error or nil; with a nil closer it returns nil
  and leaves the state as it is. \<open>Close\<close> on the Noop Tracer returns nil, in every
  well-formed state and in the state \<open>init\<close> leaves, where its closer is nil.
\<close>

theorem Close_delegates:
  assumes "lookup (tracers st) p = Some T"
  shows "(\<forall>c. closer T = Some c \<longrightarrow>
            Close lib st (Some p)
              = Inr (Reporter_Close lib c, st\<lparr>events := ReporterClosed c # events st\<rparr>))
         \<and> (closer T = None \<longrightarrow> Close lib st (Some p) = Inr (None, st))
         \<and> (wf_world st \<longrightarrow> Close lib st (NoopTracer st) = Inr (None, st))
         \<and> (\<forall>st0. init lib st0 = Inr st \<longrightarrow> Close lib st (NoopTracer st) = Inr (None, st))"
proof (intro conjI allI impI)
  fix c assume "closer T = Some c"
  with assms show "Close lib st (Some p)
      = Inr (Reporter_Close lib c, st\<lparr>events := ReporterClosed c # events st\<rparr>)"
    by (simp add: Close_def)
next
  assume "closer T = None"
  with assms show "Close lib st (Some p) = Inr (None, st)"
    by (simp add: Close_def)
next
  assume "wf_world st"
  from wf_world_NoopTracer [OF this] show "Close lib st (NoopTracer st) = Inr (None, st)"
    using Close_no_closer by blast
next
  fix st0 assume "init lib st0 = Inr st"
  from init_NoopTracer [OF this] show "Close lib st (NoopTracer st) = Inr (None, st)"
    using Close_no_closer by blast
qed

theorem Close_delegates_witness:
  "Close failing_close_lib (world1 False) (Some 1)
     = Inr (Some ''flush failed'',
            (world1 False)\<lparr>events := ReporterClosed (HTTPReporter 0 ''http://collector:9411'')
                                       # events (world1 False)\<rparr>)
   \<and> Close failing_close_lib (world1 False) (Some 0) = Inr (None, world1 False)
   \<and> Close failing_close_lib (world1 False) (NoopTracer (world1 False)) = Inr (None, world1 False)
   \<and> Close spec_lib world0 (NoopTracer world0) = Inr (None, world0)"
proof -
  let ?T = "\<lparr>tracer = Some (example_engine False), tags = Map.empty,
             closer = Some (HTTPReporter 0 ''http://collector:9411'')\<rparr>"
  let ?N = "\<lparr>tracer = Some (Engine None []), tags = Map.empty, closer = None\<rparr>"
  have l1: "lookup (tracers (world1 False)) 1 = Some ?T"
    by (simp add: world1_def world0_def lookup_def)
  have l0: "lookup (tracers (world1 False)) 0 = Some ?N"
    by (simp add: world1_def world0_def lookup_def)
  have l00: "lookup (tracers world0) 0 = Some ?N"
    by (simp add: world0_def lookup_def)
  have rc: "Reporter_Close failing_close_lib (HTTPReporter 0 ''http://collector:9411'')
      = Some ''flush failed''"
    by (simp add: failing_close_lib_def)
  from Close_delegates [OF l1, of failing_close_lib] rc
  have a: "Close failing_close_lib (world1 False) (Some 1)
     = Inr (Some ''flush failed'',
            (world1 False)\<lparr>events := ReporterClosed (HTTPReporter 0 ''http://collector:9411'')
                                       # events (world1 False)\<rparr>)"
    by simp
  from Close_delegates [OF l0, of failing_close_lib] wf_world1 [of False]
  have b: "Close failing_close_lib (world1 False) (Some 0) = Inr (None, world1 False)"
    and c: "Close failing_close_lib (world1 False) (NoopTracer (world1 False))
      = Inr (None, world1 False)"
    by simp_all
  from Close_delegates [OF l00, of spec_lib] init_world0
  have d: "Close spec_lib world0 (NoopTracer world0) = Inr (None, world0)"
    by blast
  from a b c d show ?thesis by blast
qed

end
